theory Spec2Isabelle
  imports Main "HOL-Library.Word"
begin

unbundle bit_operations_syntax

section \<open>Data model of signals-win.c\<close>

text \<open>
  Pointers are natural numbers; a pointer that may be \<open>NULL\<close> is an \<open>option\<close>.
  The objects behind task and thread-local-state pointers live in two stores of the
  process state, so that a write through \<open>ct->ptls\<close> is seen by every holder of
  the same pointer.
\<close>

type_synonym handle = nat
type_synonym task_ptr = nat
type_synonym tls_ptr = nat
type_synonym jmp_buf = nat
type_synonym gcframe = nat

text \<open>
  The exception objects the file names are distinct global objects of the runtime;
  they are compared by identity (\<open>excpt != jl_stackovf_exception\<close>).
\<close>

datatype jl_value =
    jl_stackovf_exception
  | jl_interrupt_exception
  | jl_diverror_exception
  | jl_readonlymemory_exception
  | jl_object nat

text \<open>
  \<open>CONTEXT\<close>: the flags word the file writes itself, and the register snapshot,
  which only the operating system and \<open>jl_simulate_longjmp\<close> look into.
\<close>

record CONTEXT =
  ContextFlags :: "32 word"
  machine_state :: nat

text \<open>
  \<open>jl_bt_element_t\<close> is a union of \<open>uintptr_t uintptr\<close> and
  \<open>jl_value_t *jlvalue\<close>; the constructor records the member that was written.
  The profiler stores a task pointer through the \<open>jlvalue\<close> member.
\<close>

datatype jl_bt_element = Uintptr "64 word" | Jlvalue "task_ptr option"

text \<open>\<open>jl_handler_t\<close>: the saved resume context and the link to the enclosing frame.\<close>

datatype jl_handler = Handler (eh_ctx: jmp_buf) (prev: "jl_handler option")

record jl_task =
  eh :: "jl_handler option"
  gcstack :: "gcframe option"
  ptls :: tls_ptr

record jl_tls_states =
  tid :: "16 word"
  system_id :: handle
  current_task :: "task_ptr option"
  bt_size :: nat
  bt_data :: "jl_bt_element list"
  sig_exception :: "jl_value option"
  io_wait :: int
  defer_signal :: int
  sleep_check_state :: int

record TIMECAPS =
  wPeriodMin :: nat
  wPeriodMax :: nat

text \<open>
  Every call that leaves the file is recorded, in order, in the process state: the
  operating-system calls with their outcome, the diagnostics written, and the calls to
  the runtime's collaborators whose bodies are in other files.
\<close>

datatype event =
    EvSafepointEnableSigint
  | EvSafepointConsumeSigint
  | EvClearForceSigint
  | EvWakeLibuv
  | EvSuspendThread handle bool
  | EvResumeThread handle bool
  | EvGetThreadContext handle bool
  | EvSetThreadContext handle CONTEXT bool
  | EvPrintf string
  | EvFputs string
  | EvStackOverflowWarning
  | EvNoExcHandler jl_value task_ptr
  | EvSleep nat
  | EvProfileTask
  | EvCheckProfileAutostop
  | EvTimeGetDevCaps bool
  | EvCreateThread bool
  | EvSetThreadPriority handle
  | EvTimeBeginPeriod nat bool
  | EvTimeEndPeriod nat
  | EvMallocStack bool

record world =
  jl_all_tls_states :: "nat \<Rightarrow> tls_ptr option"
  tls_heap :: "tls_ptr \<Rightarrow> jl_tls_states"
  task_heap :: "task_ptr \<Rightarrow> jl_task"
  safe_restore :: "jmp_buf option"
  have_backtrace_fiber :: int
  stkerror_ctx :: "CONTEXT option"
  stkerror_ptls :: "tls_ptr option"
  hMainThread :: handle
  hBtThread :: "handle option"
  timecaps :: TIMECAPS
  nsecprof :: nat
  profile_running :: int
  profile_all_tasks :: "8 word"
  profile_bt_data_prof :: "jl_bt_element list"
  profile_bt_size_cur :: nat
  profile_bt_size_max :: nat
  events :: "event list"

text \<open>
  What the file cannot decide by itself is a parameter: the results of the
  operating-system calls, and the functions, constants and macros of the runtime that
  are declared in other files.
\<close>

record env =
  simulate_longjmp :: "jmp_buf \<Rightarrow> CONTEXT \<Rightarrow> CONTEXT option"
  backtrace_walk :: "CONTEXT \<Rightarrow> gcframe option \<Rightarrow> jl_bt_element list"
  JL_MAX_BT_SIZE :: nat
  no_exc_handler_returns :: bool
  check_force_sigint :: bool
  suspend_ok :: bool
  thread_context :: "CONTEXT option"
  set_context_ok :: bool
  resume_ok :: bool
  profile_is_buffer_full :: bool
  cycleclock :: "64 word"
  PROFILE_STATE_THREAD_NOT_SLEEPING :: "64 word"
  PROFILE_STATE_THREAD_SLEEPING :: "64 word"
  profile_autostop :: bool
  dev_caps :: "TIMECAPS option"
  new_thread :: "handle option"
  begin_period_ok :: bool
  malloc_stack_ok :: bool

text \<open>How a call ends when it does not return to its caller.\<close>

datatype halt = Abort | AssertFailed | NullDeref | NoHandlerExit | BufferOverrun | FatalError

section \<open>Collaborators\<close>

definition emit :: "event \<Rightarrow> world \<Rightarrow> world" where
  "emit e w = w\<lparr>events := events w @ [e]\<rparr>"

definition upd_tls :: "tls_ptr \<Rightarrow> (jl_tls_states \<Rightarrow> jl_tls_states) \<Rightarrow> world \<Rightarrow> world" where
  "upd_tls p f w = w\<lparr>tls_heap := (tls_heap w)(p := f (tls_heap w p))\<rparr>"

definition jl_safe_printf :: "string \<Rightarrow> world \<Rightarrow> world" where
  "jl_safe_printf s w = emit (EvPrintf s) w"

definition fputs_stderr :: "string \<Rightarrow> world \<Rightarrow> world" where
  "fputs_stderr s w = emit (EvFputs s) w"

definition jl_get_safe_restore :: "world \<Rightarrow> jmp_buf option" where
  "jl_get_safe_restore w = safe_restore w"

text \<open>
  \<open>jl_simulate_longjmp(mctx, c)\<close> rewrites \<open>*c\<close> and returns non-zero, or
  returns zero: \<open>None\<close> is the zero.
\<close>

definition jl_simulate_longjmp :: "env \<Rightarrow> jmp_buf \<Rightarrow> CONTEXT \<Rightarrow> CONTEXT option" where
  "jl_simulate_longjmp E mctx c = simulate_longjmp E mctx c"

text \<open>
  Modelled from the spec: \<open>rec_backtrace_ctx\<close>, the backtrace-walking function
  \<open>(buffer, max_entries, CapturedContext, optional gc-root) -> entries_written\<close>,
  whose body is not in this file. It writes at most \<open>maxsize\<close> of the entries the
  walk finds at the start of the buffer it is given, leaves the rest of the buffer as it
  was, reads the context without changing it, and returns the number of entries written.
\<close>

definition rec_backtrace_ctx ::
  "env \<Rightarrow> jl_bt_element list \<Rightarrow> nat \<Rightarrow> CONTEXT \<Rightarrow> gcframe option \<Rightarrow> jl_bt_element list \<times> nat" where
  "rec_backtrace_ctx E buf maxsize ctx gc =
     (let found = take maxsize (backtrace_walk E ctx gc)
      in (found @ drop (length found) buf, length found))"

text \<open>
  Modelled from the spec: \<open>jl_no_exc_handler\<close>, the "no handler" collaborator, which
  decides the fatal termination policy. Whether it comes back is its own decision.
\<close>

definition jl_no_exc_handler ::
  "env \<Rightarrow> jl_value \<Rightarrow> task_ptr \<Rightarrow> CONTEXT \<Rightarrow> world \<Rightarrow> (halt \<times> world) + (CONTEXT \<times> world)" where
  "jl_no_exc_handler E e t c w =
     (let w' = emit (EvNoExcHandler e t) w
      in if no_exc_handler_returns E then Inr (c, w') else Inl (NoHandlerExit, w'))"

definition jl_safepoint_enable_sigint :: "world \<Rightarrow> world" where
  "jl_safepoint_enable_sigint w = emit EvSafepointEnableSigint w"

definition jl_safepoint_consume_sigint :: "world \<Rightarrow> world" where
  "jl_safepoint_consume_sigint w = emit EvSafepointConsumeSigint w"

definition jl_clear_force_sigint :: "world \<Rightarrow> world" where
  "jl_clear_force_sigint w = emit EvClearForceSigint w"

definition jl_wake_libuv :: "world \<Rightarrow> world" where
  "jl_wake_libuv w = emit EvWakeLibuv w"

definition jl_check_force_sigint :: "env \<Rightarrow> bool" where
  "jl_check_force_sigint E = check_force_sigint E"

definition SuspendThread :: "env \<Rightarrow> handle \<Rightarrow> world \<Rightarrow> bool \<times> world" where
  "SuspendThread E h w = (suspend_ok E, emit (EvSuspendThread h (suspend_ok E)) w)"

definition ResumeThread :: "env \<Rightarrow> handle \<Rightarrow> world \<Rightarrow> bool \<times> world" where
  "ResumeThread E h w = (resume_ok E, emit (EvResumeThread h (resume_ok E)) w)"

definition GetThreadContext :: "env \<Rightarrow> handle \<Rightarrow> world \<Rightarrow> CONTEXT option \<times> world" where
  "GetThreadContext E h w =
     (thread_context E, emit (EvGetThreadContext h (thread_context E \<noteq> None)) w)"

definition SetThreadContext :: "env \<Rightarrow> handle \<Rightarrow> CONTEXT \<Rightarrow> world \<Rightarrow> bool \<times> world" where
  "SetThreadContext E h c w = (set_context_ok E, emit (EvSetThreadContext h c (set_context_ok E)) w)"

text \<open>\<open>CONTEXT_CONTROL | CONTEXT_INTEGER\<close>, with the values of the AMD64 Windows headers.\<close>

definition CONTEXT_CONTROL :: "32 word" where
  "CONTEXT_CONTROL = 0x100001"

definition CONTEXT_INTEGER :: "32 word" where
  "CONTEXT_INTEGER = 0x100002"

section \<open>The stack-overflow backtrace fiber\<close>

text \<open>
  \<open>start_backtrace_fiber\<close>, entered by \<open>jl_swapcontext\<close> and left by
  \<open>jl_setcontext(&error_return_fiber)\<close>: it prints the warning and collects the
  backtrace of \<open>stkerror_ctx\<close> into the buffer of \<open>stkerror_ptls\<close>, with no
  gc root. Both globals are set by the caller before the switch.
\<close>

definition start_backtrace_fiber :: "env \<Rightarrow> world \<Rightarrow> world" where
  "start_backtrace_fiber E w =
     (let w1 = emit EvStackOverflowWarning w
      in case (stkerror_ptls w1, stkerror_ctx w1) of
           (Some p, Some c) \<Rightarrow>
             (case rec_backtrace_ctx E (bt_data (tls_heap w1 p)) (JL_MAX_BT_SIZE E) c None of
                (d, n) \<Rightarrow> upd_tls p (\<lambda>s. s\<lparr>bt_data := d, bt_size := n\<rparr>) w1)
         | _ \<Rightarrow> w1)"

section \<open>The context-rewrite exception injector\<close>

text \<open>
  \<open>jl_throw_in_ctx(ct, excpt, ctxThread)\<close>. The context is passed by pointer, so the
  result carries the context the caller sees afterwards. \<open>assert(ct && excpt)\<close> is
  checked. The mutex around the fiber is not modelled: the model is sequential.
\<close>

definition jl_throw_in_ctx ::
  "env \<Rightarrow> task_ptr option \<Rightarrow> jl_value option \<Rightarrow> CONTEXT \<Rightarrow> world \<Rightarrow> (halt \<times> world) + (CONTEXT \<times> world)" where
  "jl_throw_in_ctx E ct excpt ctxThread w =
     (case jl_get_safe_restore w of
        Some saferestore \<Rightarrow>
          (case jl_simulate_longjmp E saferestore ctxThread of
             None \<Rightarrow> Inl (Abort, w)
           | Some c \<Rightarrow> Inr (c, w))
      | None \<Rightarrow>
          (case (ct, excpt) of
             (Some t, Some e) \<Rightarrow>
               (let p = ptls (task_heap w t);
                    w1 = upd_tls p (\<lambda>s. s\<lparr>bt_size := 0\<rparr>) w;
                    w2 = (if e \<noteq> jl_stackovf_exception then
                            (case rec_backtrace_ctx E (bt_data (tls_heap w1 p)) (JL_MAX_BT_SIZE E)
                                    ctxThread (gcstack (task_heap w1 t)) of
                               (d, n) \<Rightarrow> upd_tls p (\<lambda>s. s\<lparr>bt_data := d, bt_size := n\<rparr>) w1)
                          else if have_backtrace_fiber w1 \<noteq> 0 then
                            start_backtrace_fiber E
                              (w1\<lparr>stkerror_ctx := Some ctxThread, stkerror_ptls := Some p\<rparr>)
                          else w1);
                    w3 = upd_tls p (\<lambda>s. s\<lparr>sig_exception := Some e, io_wait := 0\<rparr>) w2
                in case eh (task_heap w3 t) of
                     Some h \<Rightarrow>
                       (case jl_simulate_longjmp E (eh_ctx h) ctxThread of
                          None \<Rightarrow> Inl (Abort, w3)
                        | Some c \<Rightarrow> Inr (c, w3))
                   | None \<Rightarrow> jl_no_exc_handler E e t ctxThread w3)
           | _ \<Rightarrow> Inl (AssertFailed, w)))"

text \<open>
  \<open>jl_install_thread_signal_handler\<close>: the first call allocates the fiber's stack and
  sets \<open>have_backtrace_fiber\<close>; \<open>jl_errorf\<close> on a failed allocation does not return.
\<close>

definition jl_install_thread_signal_handler :: "env \<Rightarrow> world \<Rightarrow> (halt \<times> world) + (unit \<times> world)" where
  "jl_install_thread_signal_handler E w =
     (if have_backtrace_fiber w = 0 then
        (let w1 = emit (EvMallocStack (malloc_stack_ok E)) w
         in if \<not> malloc_stack_ok E then Inl (FatalError, w1)
            else Inr ((), w1\<lparr>have_backtrace_fiber := 1\<rparr>))
      else Inr ((), w))"


section \<open>Cross-thread interrupt delivery\<close>

text \<open>
  The end of \<open>jl_try_deliver_sigint\<close>, reached from both arms of its conditional:
  \<open>ResumeThread(hMainThread)\<close>, and a message when it fails.
\<close>

definition jl_try_deliver_sigint_resume :: "env \<Rightarrow> world \<Rightarrow> (halt \<times> world) + (unit \<times> world)" where
  "jl_try_deliver_sigint_resume E w =
     (case ResumeThread E (hMainThread w) w of
        (ok, w1) \<Rightarrow>
          if \<not> ok then Inr ((), jl_safe_printf ''error: ResumeThread failed\<newline>'' w1)
          else Inr ((), w1))"

text \<open>
  \<open>jl_try_deliver_sigint\<close>. \<open>ptls2\<close> is loaded first and dereferenced only
  where the source does: in the second operand of \<open>||\<close>, which is not evaluated
  when \<open>force\<close> is set, and for \<open>ptls2->current_task\<close>; a null
  \<open>ptls2\<close> faults there. \<open>jl_lock_profile\<close> and \<open>jl_unlock_profile\<close>
  do nothing in a sequential model.
\<close>

definition jl_try_deliver_sigint :: "env \<Rightarrow> world \<Rightarrow> (halt \<times> world) + (unit \<times> world)" where
  "jl_try_deliver_sigint E w =
     (let ptls2 = jl_all_tls_states w 0;
          w1 = jl_wake_libuv (jl_safepoint_enable_sigint w)
      in case SuspendThread E (hMainThread w1) w1 of
           (suspended, w2) \<Rightarrow>
             if \<not> suspended then Inr ((), jl_safe_printf ''error: SuspendThread failed\<newline>'' w2)
             else
               (let force = jl_check_force_sigint E;
                    deliver = (if force then Some True
                               else (case ptls2 of
                                       None \<Rightarrow> None
                                     | Some p \<Rightarrow>
                                         Some (defer_signal (tls_heap w2 p) = 0
                                               \<and> io_wait (tls_heap w2 p) \<noteq> 0)))
                in case deliver of
                     None \<Rightarrow> Inl (NullDeref, w2)
                   | Some False \<Rightarrow> jl_try_deliver_sigint_resume E w2
                   | Some True \<Rightarrow>
                       (let w3 = jl_safepoint_consume_sigint w2;
                            w4 = (if force
                                  then jl_safe_printf ''WARNING: Force throwing a SIGINT\<newline>'' w3
                                  else w3);
                            w5 = jl_clear_force_sigint w4
                        in case GetThreadContext E (hMainThread w5) w5 of
                             (None, w6) \<Rightarrow>
                               Inr ((), jl_safe_printf ''error: GetThreadContext failed\<newline>'' w6)
                           | (Some ctxThread, w6) \<Rightarrow>
                               (case ptls2 of
                                  None \<Rightarrow> Inl (NullDeref, w6)
                                | Some p \<Rightarrow>
                                    (case jl_throw_in_ctx E (current_task (tls_heap w6 p))
                                            (Some jl_interrupt_exception) ctxThread w6 of
                                       Inl stop \<Rightarrow> Inl stop
                                     | Inr (ctx1, w7) \<Rightarrow>
                                         (let ctx2 = ctx1\<lparr>ContextFlags := CONTEXT_CONTROL OR CONTEXT_INTEGER\<rparr>
                                          in case SetThreadContext E (hMainThread w7) ctx2 w7 of
                                               (written, w8) \<Rightarrow>
                                                 if \<not> written then
                                                   Inr ((), jl_safe_printf
                                                              ''error: SetThreadContext failed\<newline>'' w8)
                                                 else jl_try_deliver_sigint_resume E w8))))))"

section \<open>Suspending and resuming a worker for a stack walk\<close>

text \<open>
  \<open>jl_thread_suspend_and_get_state(tid, timeout, ctx)\<close>: \<open>Some\<close> context is the
  return value 1 with \<open>*ctx\<close> filled, \<open>None\<close> is the return value 0.
\<close>

definition jl_thread_suspend_and_get_state ::
  "env \<Rightarrow> nat \<Rightarrow> world \<Rightarrow> (halt \<times> world) + (CONTEXT option \<times> world)" where
  "jl_thread_suspend_and_get_state E i w =
     (case jl_all_tls_states w i of
        None \<Rightarrow> Inr (None, w)
      | Some p \<Rightarrow>
          (case current_task (tls_heap w p) of
             None \<Rightarrow> Inr (None, w)
           | Some ct2 \<Rightarrow>
               (let hThread = system_id (tls_heap w p)
                in case SuspendThread E hThread w of
                     (suspended, w1) \<Rightarrow>
                       if \<not> suspended then Inr (None, w1)
                       else
                         (case GetThreadContext E hThread w1 of
                            (None, w2) \<Rightarrow>
                              (case ResumeThread E hThread w2 of
                                 (ok, w3) \<Rightarrow> if \<not> ok then Inl (Abort, w3) else Inr (None, w3))
                          | (Some c, w2) \<Rightarrow> Inr (Some c, w2)))))"

definition jl_thread_resume :: "env \<Rightarrow> nat \<Rightarrow> world \<Rightarrow> (halt \<times> world) + (unit \<times> world)" where
  "jl_thread_resume E i w =
     (case jl_all_tls_states w i of
        None \<Rightarrow> Inl (NullDeref, w)
      | Some p \<Rightarrow>
          (case ResumeThread E (system_id (tls_heap w p)) w of
             (ok, w1) \<Rightarrow>
               if \<not> ok then
                 Inl (Abort, fputs_stderr ''failed to resume main thread! aborting.'' w1)
               else Inr ((), w1)))"

section \<open>The sampling profiler\<close>

text \<open>
  \<open>jl_profile_stop_timer\<close>; the lock \<open>bt_data_prof_lock\<close> does nothing in a
  sequential model.
\<close>

definition jl_profile_stop_timer :: "world \<Rightarrow> world" where
  "jl_profile_stop_timer w =
     (let w1 = (if profile_running w \<noteq> 0 \<and> wPeriodMin (timecaps w) \<noteq> 0
                then emit (EvTimeEndPeriod (wPeriodMin (timecaps w))) w
                else w)
      in w1\<lparr>profile_running := 0, profile_all_tasks := 0\<rparr>)"

text \<open>
  The end of \<open>jl_profile_start_timer\<close>, reached once the profiler thread exists and
  runs: raise the timer resolution when the profiler was not running, then set the flags.
\<close>

definition jl_profile_start_timer_arm :: "env \<Rightarrow> 8 word \<Rightarrow> world \<Rightarrow> int \<times> world" where
  "jl_profile_start_timer_arm E all_tasks w =
     (let w1 = (if profile_running w = 0 then
                  (let w' = emit (EvTimeBeginPeriod (wPeriodMin (timecaps w)) (begin_period_ok E)) w
                   in if \<not> begin_period_ok E
                      then w'\<lparr>timecaps := (timecaps w')\<lparr>wPeriodMin := 0\<rparr>\<rparr>
                      else w')
                else w)
      in (0, w1\<lparr>profile_all_tasks := all_tasks, profile_running := 1\<rparr>))"

text \<open>
  \<open>jl_profile_start_timer(all_tasks)\<close>, with its return code. The thread that
  \<open>CreateThread\<close> starts runs \<open>profile_bt\<close> on its own; here it is only created.
\<close>

definition jl_profile_start_timer :: "env \<Rightarrow> 8 word \<Rightarrow> world \<Rightarrow> int \<times> world" where
  "jl_profile_start_timer E all_tasks w =
     (case hBtThread w of
        None \<Rightarrow>
          (let w1 = emit (EvTimeGetDevCaps (dev_caps E \<noteq> None)) w
           in case dev_caps E of
                None \<Rightarrow> (- 2, fputs_stderr ''failed to get timer resolution'' w1)
              | Some caps \<Rightarrow>
                  (let w2 = w1\<lparr>timecaps := caps\<rparr>;
                       w3 = (emit (EvCreateThread (new_thread E \<noteq> None)) w2)\<lparr>hBtThread := new_thread E\<rparr>
                   in case new_thread E of
                        None \<Rightarrow> (- 1, w3)
                      | Some h \<Rightarrow> jl_profile_start_timer_arm E all_tasks (emit (EvSetThreadPriority h) w3)))
      | Some h \<Rightarrow>
          (case ResumeThread E h w of
             (ok, w1) \<Rightarrow>
               if \<not> ok then (- 2, fputs_stderr ''failed to resume profiling thread.'' w1)
               else jl_profile_start_timer_arm E all_tasks w1))"

text \<open>\<open>profile_bt_data_prof[profile_bt_size_cur++] = v\<close>, for an index inside the buffer.\<close>

definition profile_put :: "jl_bt_element \<Rightarrow> world \<Rightarrow> world" where
  "profile_put v w =
     w\<lparr>profile_bt_data_prof := (profile_bt_data_prof w)[profile_bt_size_cur w := v],
       profile_bt_size_cur := profile_bt_size_cur w + 1\<rparr>"

text \<open>
  The room \<open>profile_bt\<close> gives \<open>rec_backtrace_ctx\<close>:
  \<open>profile_bt_size_max - profile_bt_size_cur - 1\<close>, in the arithmetic of a 64-bit
  \<open>size_t\<close>, which wraps below zero.
\<close>

definition profile_bt_room :: "world \<Rightarrow> nat" where
  "profile_bt_room w =
     nat ((int (profile_bt_size_max w) - int (profile_bt_size_cur w) - 1) mod 2 ^ 64)"

text \<open>
  One sample of \<open>profile_bt\<close>, from the call of \<open>rec_backtrace_ctx\<close> to the second
  zero. The backtrace is written at \<open>profile_bt_data_prof + profile_bt_size_cur\<close>,
  then six entries follow. The list \<open>profile_bt_data_prof\<close> is the allocated
  buffer: a write past its end is undefined in C and \<open>BufferOverrun\<close> here, checked
  once for the backtrace and once for the six entries, which are written at consecutive
  indices.
\<close>

definition profile_bt_sample :: "env \<Rightarrow> CONTEXT \<Rightarrow> world \<Rightarrow> (halt \<times> world) + (unit \<times> world)" where
  "profile_bt_sample E ctxThread w =
     (let cur = profile_bt_size_cur w
      in case rec_backtrace_ctx E (drop cur (profile_bt_data_prof w)) (profile_bt_room w)
                ctxThread None of
           (written, n) \<Rightarrow>
             if length (profile_bt_data_prof w) < cur + n then Inl (BufferOverrun, w)
             else
               (let w1 = w\<lparr>profile_bt_data_prof := take cur (profile_bt_data_prof w) @ written,
                           profile_bt_size_cur := cur + n\<rparr>
                in case jl_all_tls_states w1 0 of
                     None \<Rightarrow> Inl (NullDeref, w1)
                   | Some p \<Rightarrow>
                       if length (profile_bt_data_prof w1) < profile_bt_size_cur w1 + 6
                       then Inl (BufferOverrun, w1)
                       else
                         (let s = tls_heap w1 p;
                              w2 = profile_put (Uintptr (word_of_int (sint (tid s) + 1))) w1;
                              w3 = profile_put (Jlvalue (current_task s)) w2;
                              w4 = profile_put (Uintptr (cycleclock E)) w3;
                              state = (if sleep_check_state s = 0
                                       then PROFILE_STATE_THREAD_NOT_SLEEPING E
                                       else PROFILE_STATE_THREAD_SLEEPING E);
                              w5 = profile_put (Uintptr state) w4;
                              w6 = profile_put (Uintptr 0) w5;
                              w7 = profile_put (Uintptr 0) w6
                          in Inr ((), w7))))"

text \<open>
  Modelled from the spec: \<open>jl_check_profile_autostop\<close>, which checks an auto-stop
  condition (elapsed sample count or external stop request) and stops the timer when it
  holds; and \<open>jl_profile_task\<close>, the cooperative walk of all tasks, which is only
  recorded as called.
\<close>

definition jl_check_profile_autostop :: "env \<Rightarrow> world \<Rightarrow> world" where
  "jl_check_profile_autostop E w =
     (let w1 = emit EvCheckProfileAutostop w
      in if profile_autostop E then jl_profile_stop_timer w1 else w1)"

definition jl_profile_task :: "world \<Rightarrow> world" where
  "jl_profile_task w = emit EvProfileTask w"

text \<open>
  Modelled from the spec: \<open>GIGA\<close>, nanoseconds per second: the sampling period is in
  nanoseconds and the sleep in milliseconds.
\<close>

definition GIGA :: nat where
  "GIGA = 1000000000"

text \<open>The pseudo-handle \<open>GetCurrentThread()\<close> returns, \<open>(HANDLE)-2\<close>.\<close>

definition GetCurrentThread :: handle where
  "GetCurrentThread = 2 ^ 64 - 2"

datatype loop_ctl = Continue | Break

text \<open>
  The first two lines of the loop body of \<open>profile_bt\<close>: \<open>timeout_ms\<close> is a
  \<open>DWORD\<close>, and the sleep is at least one millisecond.
\<close>

definition profile_bt_sleep :: "world \<Rightarrow> world" where
  "profile_bt_sleep w =
     (let timeout_ms = (nsecprof w div (GIGA div 1000)) mod 2 ^ 32
      in emit (EvSleep (if timeout_ms > 0 then timeout_ms else 1)) w)"

text \<open>
  One turn of the \<open>while (1)\<close> of \<open>profile_bt\<close>. The stack-walk lock does
  nothing in a sequential model.
\<close>

definition profile_bt_body :: "env \<Rightarrow> world \<Rightarrow> (halt \<times> world) + (loop_ctl \<times> world)" where
  "profile_bt_body E w =
     (let w0 = profile_bt_sleep w
      in if profile_running w0 \<noteq> 0 then
           (if profile_is_buffer_full E then
              Inr (Continue, snd (SuspendThread E GetCurrentThread (jl_profile_stop_timer w0)))
            else if profile_all_tasks w0 \<noteq> 0 then Inr (Continue, jl_profile_task w0)
            else
              (case jl_thread_suspend_and_get_state E 0 w0 of
                 Inl stop \<Rightarrow> Inl stop
               | Inr (None, w1) \<Rightarrow>
                   Inr (Break, jl_profile_stop_timer
                          (fputs_stderr ''failed to suspend main thread. aborting profiling.'' w1))
               | Inr (Some ctxThread, w1) \<Rightarrow>
                   (case profile_bt_sample E ctxThread w1 of
                      Inl stop \<Rightarrow> Inl stop
                    | Inr (u, w2) \<Rightarrow>
                        (case jl_thread_resume E 0 w2 of
                           Inl stop \<Rightarrow> Inl stop
                         | Inr (u', w3) \<Rightarrow> Inr (Continue, jl_check_profile_autostop E w3)))))
         else Inr (Continue, w0))"

datatype thread_status = Looping | Returned

text \<open>
  \<open>profile_bt\<close>: the loop never ends by itself, so it is run for as many turns as
  there are environments in the list, one per turn. After a \<open>break\<close> the thread
  function stops the timer, clears \<open>hBtThread\<close> and returns.
\<close>

fun profile_bt :: "env list \<Rightarrow> world \<Rightarrow> (halt \<times> world) + (thread_status \<times> world)" where
  "profile_bt [] w = Inr (Looping, w)"
| "profile_bt (E # Es) w =
     (case profile_bt_body E w of
        Inl stop \<Rightarrow> Inl stop
      | Inr (Continue, w1) \<Rightarrow> profile_bt Es w1
      | Inr (Break, w1) \<Rightarrow> Inr (Returned, (jl_profile_stop_timer w1)\<lparr>hBtThread := None\<rparr>))"

section \<open>Reading results and traces\<close>

definition final_world :: "(halt \<times> world) + ('a \<times> world) \<Rightarrow> world" where
  "final_world r = (case r of Inl (stop, w) \<Rightarrow> w | Inr (x, w) \<Rightarrow> w)"

definition returned :: "(halt \<times> world) + ('a \<times> world) \<Rightarrow> 'a option" where
  "returned r = (case r of Inl stop \<Rightarrow> None | Inr (x, w) \<Rightarrow> Some x)"

definition halted :: "(halt \<times> world) + ('a \<times> world) \<Rightarrow> halt option" where
  "halted r = (case r of Inl (stop, w) \<Rightarrow> Some stop | Inr y \<Rightarrow> None)"

text \<open>The events a run added to the trace it started with.\<close>

definition new_events :: "world \<Rightarrow> world \<Rightarrow> event list" where
  "new_events w w' = drop (length (events w)) (events w')"

fun is_suspend_ok :: "handle \<Rightarrow> event \<Rightarrow> bool" where
  "is_suspend_ok h (EvSuspendThread h' ok) = (h' = h \<and> ok)"
| "is_suspend_ok h e = False"

fun is_resume :: "handle \<Rightarrow> event \<Rightarrow> bool" where
  "is_resume h (EvResumeThread h' ok) = (h' = h)"
| "is_resume h e = False"

fun is_time_end :: "event \<Rightarrow> bool" where
  "is_time_end (EvTimeEndPeriod p) = True"
| "is_time_end e = False"

definition suspends :: "handle \<Rightarrow> event list \<Rightarrow> nat" where
  "suspends h es = length (filter (is_suspend_ok h) es)"

definition resumes :: "handle \<Rightarrow> event list \<Rightarrow> nat" where
  "resumes h es = length (filter (is_resume h) es)"

fun is_time_begin :: "event \<Rightarrow> bool" where
  "is_time_begin (EvTimeBeginPeriod p ok) = True"
| "is_time_begin e = False"

definition time_end_calls :: "event list \<Rightarrow> nat" where
  "time_end_calls es = length (filter is_time_end es)"

section \<open>A concrete process state\<close>

definition ex_ctx :: CONTEXT where
  "ex_ctx = \<lparr>ContextFlags = 0x100003, machine_state = 5\<rparr>"

definition ex_env :: env where
  "ex_env =
     \<lparr>simulate_longjmp = (\<lambda>m c. Some (c\<lparr>machine_state := m\<rparr>)),
      backtrace_walk = (\<lambda>c g. [Uintptr 7, Uintptr 8]),
      JL_MAX_BT_SIZE = 80000,
      no_exc_handler_returns = False,
      check_force_sigint = False,
      suspend_ok = True,
      thread_context = Some ex_ctx,
      set_context_ok = True,
      resume_ok = True,
      profile_is_buffer_full = False,
      cycleclock = 1000,
      PROFILE_STATE_THREAD_NOT_SLEEPING = 1,
      PROFILE_STATE_THREAD_SLEEPING = 2,
      profile_autostop = False,
      dev_caps = Some \<lparr>wPeriodMin = 1, wPeriodMax = 1000000\<rparr>,
      new_thread = Some 9,
      begin_period_ok = True,
      malloc_stack_ok = True\<rparr>"

definition ex_tls :: jl_tls_states where
  "ex_tls =
     \<lparr>tid = 0, system_id = 3, current_task = Some 2, bt_size = 4,
      bt_data = [Uintptr 1, Uintptr 2, Uintptr 3, Uintptr 4, Uintptr 0],
      sig_exception = None, io_wait = 1, defer_signal = 0, sleep_check_state = 0\<rparr>"

definition ex_task :: jl_task where
  "ex_task = \<lparr>eh = Some (Handler 42 None), gcstack = Some 11, ptls = 0\<rparr>"

definition ex_world :: world where
  "ex_world =
     \<lparr>jl_all_tls_states = (\<lambda>i. if i = 0 then Some 0 else None),
      tls_heap = (\<lambda>p. ex_tls),
      task_heap = (\<lambda>t. ex_task),
      safe_restore = None,
      have_backtrace_fiber = 0,
      stkerror_ctx = None,
      stkerror_ptls = None,
      hMainThread = 3,
      hBtThread = None,
      timecaps = \<lparr>wPeriodMin = 0, wPeriodMax = 0\<rparr>,
      nsecprof = 1000000,
      profile_running = 0,
      profile_all_tasks = 0,
      profile_bt_data_prof =
        [Uintptr 0, Uintptr 0, Uintptr 0, Uintptr 0, Uintptr 0, Uintptr 0,
         Uintptr 0, Uintptr 0, Uintptr 0, Uintptr 0, Uintptr 0, Uintptr 0],
      profile_bt_size_cur = 0,
      profile_bt_size_max = 12,
      events = []\<rparr>"

section \<open>Unfolding rules and list facts\<close>

lemmas collab_defs = emit_def upd_tls_def jl_safe_printf_def fputs_stderr_def
  jl_get_safe_restore_def jl_simulate_longjmp_def rec_backtrace_ctx_def jl_no_exc_handler_def
  jl_safepoint_enable_sigint_def jl_safepoint_consume_sigint_def jl_clear_force_sigint_def
  jl_wake_libuv_def jl_check_force_sigint_def SuspendThread_def ResumeThread_def
  GetThreadContext_def SetThreadContext_def

lemmas ex_defs = ex_ctx_def ex_env_def ex_tls_def ex_task_def ex_world_def

lemmas read_defs = final_world_def returned_def halted_def new_events_def

lemmas count_defs = suspends_def resumes_def time_end_calls_def

lemmas deliver_defs = jl_try_deliver_sigint_def jl_try_deliver_sigint_resume_def
  jl_throw_in_ctx_def CONTEXT_CONTROL_def CONTEXT_INTEGER_def

lemma take_min_length: "take (min (length xs) n) xs = take n xs"
  by (simp add: min_def)

lemma profile_put_cur: "profile_bt_size_cur (profile_put v w) = Suc (profile_bt_size_cur w)"
  by (simp add: profile_put_def)

lemma profile_put_length:
  "length (profile_bt_data_prof (profile_put v w)) = length (profile_bt_data_prof w)"
  by (simp add: profile_put_def)

lemma profile_put_step:
  assumes "profile_bt_size_cur w < length (profile_bt_data_prof w)"
    and "take (profile_bt_size_cur w) (profile_bt_data_prof w) = xs"
  shows "take (profile_bt_size_cur (profile_put v w)) (profile_bt_data_prof (profile_put v w)) = xs @ [v]"
  using assms by (simp add: profile_put_def take_Suc_conv_app_nth)

lemma profile_put_other:
  "jl_all_tls_states (profile_put v w) = jl_all_tls_states w"
  "tls_heap (profile_put v w) = tls_heap w"
  "events (profile_put v w) = events w"
  by (simp_all add: profile_put_def)

lemma profile_bt_sample_block:
  assumes tls: "jl_all_tls_states w 0 = Some p"
    and room: "profile_bt_size_cur w
                 + length (take (profile_bt_room w) (backtrace_walk E c None))
                 + 6 \<le> length (profile_bt_data_prof w)"
  shows "\<exists>w'. profile_bt_sample E c w = Inr ((), w')
           \<and> take (profile_bt_size_cur w') (profile_bt_data_prof w') =
               take (profile_bt_size_cur w) (profile_bt_data_prof w)
                 @ take (profile_bt_room w) (backtrace_walk E c None)
                 @ [Uintptr (word_of_int (sint (tid (tls_heap w p)) + 1)),
                    Jlvalue (current_task (tls_heap w p)),
                    Uintptr (cycleclock E),
                    Uintptr (if sleep_check_state (tls_heap w p) = 0
                             then PROFILE_STATE_THREAD_NOT_SLEEPING E
                             else PROFILE_STATE_THREAD_SLEEPING E),
                    Uintptr 0,
                    Uintptr 0]
           \<and> events w' = events w \<and> jl_all_tls_states w' = jl_all_tls_states w
           \<and> tls_heap w' = tls_heap w
           \<and> length (profile_bt_data_prof w') = length (profile_bt_data_prof w)"
proof -
  define cur where "cur = profile_bt_size_cur w"
  define pcs where "pcs = take (profile_bt_room w) (backtrace_walk E c None)"
  define buf where "buf = profile_bt_data_prof w"
  define s where "s = tls_heap w p"
  define w1 where "w1 = w\<lparr>profile_bt_data_prof := take cur buf @ pcs @ drop (length pcs) (drop cur buf),
                           profile_bt_size_cur := cur + length pcs\<rparr>"
  define w2 where "w2 = profile_put (Uintptr (word_of_int (sint (tid s) + 1))) w1"
  define w3 where "w3 = profile_put (Jlvalue (current_task s)) w2"
  define w4 where "w4 = profile_put (Uintptr (cycleclock E)) w3"
  define w5 where "w5 = profile_put (Uintptr (if sleep_check_state s = 0
            then PROFILE_STATE_THREAD_NOT_SLEEPING E else PROFILE_STATE_THREAD_SLEEPING E)) w4"
  define w6 where "w6 = profile_put (Uintptr 0) w5"
  define w7 where "w7 = profile_put (Uintptr 0) w6"
  from room have fits: "cur + length pcs + 6 \<le> length buf"
    by (simp add: cur_def pcs_def buf_def)
  have run: "profile_bt_sample E c w = Inr ((), w7)"
    using fits tls
    by (simp add: profile_bt_sample_def rec_backtrace_ctx_def Let_def w7_def w6_def w5_def w4_def
          w3_def w2_def w1_def s_def cur_def pcs_def buf_def)
  have len1: "length (profile_bt_data_prof w1) = length buf"
    using fits by (simp add: w1_def)
  have cur1: "profile_bt_size_cur w1 = cur + length pcs"
    by (simp add: w1_def)
  have take1: "take (profile_bt_size_cur w1) (profile_bt_data_prof w1) = take cur buf @ pcs"
    using fits by (simp add: w1_def)
  have lens: "length (profile_bt_data_prof w2) = length buf" "length (profile_bt_data_prof w3) = length buf"
    "length (profile_bt_data_prof w4) = length buf" "length (profile_bt_data_prof w5) = length buf"
    "length (profile_bt_data_prof w6) = length buf"
    by (simp_all add: w2_def w3_def w4_def w5_def w6_def profile_put_length len1)
  have curs: "profile_bt_size_cur w2 = cur + length pcs + 1" "profile_bt_size_cur w3 = cur + length pcs + 2"
    "profile_bt_size_cur w4 = cur + length pcs + 3" "profile_bt_size_cur w5 = cur + length pcs + 4"
    "profile_bt_size_cur w6 = cur + length pcs + 5"
    by (simp_all add: w2_def w3_def w4_def w5_def w6_def profile_put_cur cur1)
  have take2: "take (profile_bt_size_cur w2) (profile_bt_data_prof w2) =
      take cur buf @ pcs @ [Uintptr (word_of_int (sint (tid s) + 1))]"
    using profile_put_step[OF _ take1, where v = "Uintptr (word_of_int (sint (tid s) + 1))"] fits
    by (simp add: w2_def len1 cur1)
  have take3: "take (profile_bt_size_cur w3) (profile_bt_data_prof w3) =
      take cur buf @ pcs @ [Uintptr (word_of_int (sint (tid s) + 1)), Jlvalue (current_task s)]"
    using profile_put_step[OF _ take2, where v = "Jlvalue (current_task s)"] fits
    by (simp add: w3_def lens curs)
  have take4: "take (profile_bt_size_cur w4) (profile_bt_data_prof w4) =
      take cur buf @ pcs @ [Uintptr (word_of_int (sint (tid s) + 1)), Jlvalue (current_task s),
        Uintptr (cycleclock E)]"
    using profile_put_step[OF _ take3, where v = "Uintptr (cycleclock E)"] fits
    by (simp add: w4_def lens curs)
  have take5: "take (profile_bt_size_cur w5) (profile_bt_data_prof w5) =
      take cur buf @ pcs @ [Uintptr (word_of_int (sint (tid s) + 1)), Jlvalue (current_task s),
        Uintptr (cycleclock E),
        Uintptr (if sleep_check_state s = 0
            then PROFILE_STATE_THREAD_NOT_SLEEPING E else PROFILE_STATE_THREAD_SLEEPING E)]"
    using profile_put_step[OF _ take4, where v = "Uintptr (if sleep_check_state s = 0
            then PROFILE_STATE_THREAD_NOT_SLEEPING E else PROFILE_STATE_THREAD_SLEEPING E)"] fits
    by (simp add: w5_def lens curs)
  have take6: "take (profile_bt_size_cur w6) (profile_bt_data_prof w6) =
      take cur buf @ pcs @ [Uintptr (word_of_int (sint (tid s) + 1)), Jlvalue (current_task s),
        Uintptr (cycleclock E),
        Uintptr (if sleep_check_state s = 0
            then PROFILE_STATE_THREAD_NOT_SLEEPING E else PROFILE_STATE_THREAD_SLEEPING E),
        Uintptr 0]"
    using profile_put_step[OF _ take5, where v = "Uintptr 0"] fits
    by (simp add: w6_def lens curs)
  have take7: "take (profile_bt_size_cur w7) (profile_bt_data_prof w7) =
      take cur buf @ pcs @ [Uintptr (word_of_int (sint (tid s) + 1)), Jlvalue (current_task s),
        Uintptr (cycleclock E),
        Uintptr (if sleep_check_state s = 0
            then PROFILE_STATE_THREAD_NOT_SLEEPING E else PROFILE_STATE_THREAD_SLEEPING E),
        Uintptr 0, Uintptr 0]"
    using profile_put_step[OF _ take6, where v = "Uintptr 0"] fits
    by (simp add: w7_def lens curs)
  have rest: "events w7 = events w" "jl_all_tls_states w7 = jl_all_tls_states w"
    "tls_heap w7 = tls_heap w"
    by (simp_all add: w7_def w6_def w5_def w4_def w3_def w2_def profile_put_other w1_def)
  have len7: "length (profile_bt_data_prof w7) = length buf"
    by (simp add: w7_def profile_put_length lens)
  from run take7 rest len7 show ?thesis
    by (simp add: cur_def pcs_def buf_def s_def)
qed

lemma profile_bt_sleep_fields:
  "profile_running (profile_bt_sleep w) = profile_running w"
  "profile_all_tasks (profile_bt_sleep w) = profile_all_tasks w"
  "jl_all_tls_states (profile_bt_sleep w) = jl_all_tls_states w"
  "tls_heap (profile_bt_sleep w) = tls_heap w"
  "profile_bt_data_prof (profile_bt_sleep w) = profile_bt_data_prof w"
  "profile_bt_size_cur (profile_bt_sleep w) = profile_bt_size_cur w"
  "profile_bt_room (profile_bt_sleep w) = profile_bt_room w"
  by (simp_all add: profile_bt_sleep_def emit_def profile_bt_room_def Let_def)

lemma emit_fields:
  "jl_all_tls_states (emit e w) = jl_all_tls_states w"
  "tls_heap (emit e w) = tls_heap w"
  "profile_bt_data_prof (emit e w) = profile_bt_data_prof w"
  "profile_bt_size_cur (emit e w) = profile_bt_size_cur w"
  "profile_bt_room (emit e w) = profile_bt_room w"
  by (simp_all add: emit_def profile_bt_room_def)

lemma jl_check_profile_autostop_buffer:
  "profile_bt_data_prof (jl_check_profile_autostop E w) = profile_bt_data_prof w"
  "profile_bt_size_cur (jl_check_profile_autostop E w) = profile_bt_size_cur w"
  by (simp_all add: jl_check_profile_autostop_def jl_profile_stop_timer_def emit_def Let_def)

lemma profile_bt_body_sample_run:
  assumes running: "profile_running w \<noteq> 0"
    and not_full: "\<not> profile_is_buffer_full E"
    and single: "profile_all_tasks w = 0"
    and tls: "jl_all_tls_states w 0 = Some p"
    and alive: "current_task (tls_heap w p) = Some ct2"
    and os: "suspend_ok E" "thread_context E = Some c" "resume_ok E"
    and room: "profile_bt_size_cur w
                 + length (take (profile_bt_room w) (backtrace_walk E c None))
                 + 6 \<le> length (profile_bt_data_prof w)"
  shows "\<exists>w2. profile_bt_body E w =
                 Inr (Continue, jl_check_profile_autostop E
                        (emit (EvResumeThread (system_id (tls_heap w p)) True) w2))
             \<and> take (profile_bt_size_cur w2) (profile_bt_data_prof w2) =
                 take (profile_bt_size_cur w) (profile_bt_data_prof w)
                   @ take (profile_bt_room w) (backtrace_walk E c None)
                   @ [Uintptr (word_of_int (sint (tid (tls_heap w p)) + 1)),
                      Jlvalue (current_task (tls_heap w p)),
                      Uintptr (cycleclock E),
                      Uintptr (if sleep_check_state (tls_heap w p) = 0
                               then PROFILE_STATE_THREAD_NOT_SLEEPING E
                               else PROFILE_STATE_THREAD_SLEEPING E),
                      Uintptr 0,
                      Uintptr 0]
             \<and> events w2 = events (profile_bt_sleep w)
                   @ [EvSuspendThread (system_id (tls_heap w p)) True,
                      EvGetThreadContext (system_id (tls_heap w p)) True]"
proof -
  define h where "h = system_id (tls_heap w p)"
  define w1 where "w1 = emit (EvGetThreadContext h True) (emit (EvSuspendThread h True) (profile_bt_sleep w))"
  have suspend: "jl_thread_suspend_and_get_state E 0 (profile_bt_sleep w) = Inr (Some c, w1)"
    using tls alive os
    by (simp add: jl_thread_suspend_and_get_state_def SuspendThread_def GetThreadContext_def
          profile_bt_sleep_fields Let_def w1_def h_def)
  have same: "jl_all_tls_states w1 = jl_all_tls_states w" "tls_heap w1 = tls_heap w"
    "profile_bt_data_prof w1 = profile_bt_data_prof w" "profile_bt_size_cur w1 = profile_bt_size_cur w"
    "profile_bt_room w1 = profile_bt_room w"
    by (simp_all add: w1_def emit_fields profile_bt_sleep_fields)
  have ev1: "events w1 = events (profile_bt_sleep w) @ [EvSuspendThread h True, EvGetThreadContext h True]"
    by (simp add: w1_def emit_def)
  from profile_bt_sample_block [of w1 p E c] tls room same
  obtain w2 where sample: "profile_bt_sample E c w1 = Inr ((), w2)"
    and block: "take (profile_bt_size_cur w2) (profile_bt_data_prof w2) =
                  take (profile_bt_size_cur w) (profile_bt_data_prof w)
                    @ take (profile_bt_room w) (backtrace_walk E c None)
                    @ [Uintptr (word_of_int (sint (tid (tls_heap w p)) + 1)),
                       Jlvalue (current_task (tls_heap w p)),
                       Uintptr (cycleclock E),
                       Uintptr (if sleep_check_state (tls_heap w p) = 0
                                then PROFILE_STATE_THREAD_NOT_SLEEPING E
                                else PROFILE_STATE_THREAD_SLEEPING E),
                       Uintptr 0,
                       Uintptr 0]"
    and tls2: "jl_all_tls_states w2 = jl_all_tls_states w" "tls_heap w2 = tls_heap w"
    and ev2: "events w2 = events w1"
    by auto
  have resume: "jl_thread_resume E 0 w2 = Inr ((), emit (EvResumeThread h True) w2)"
    using tls tls2 os by (simp add: jl_thread_resume_def ResumeThread_def h_def)
  have body: "profile_bt_body E w =
                Inr (Continue, jl_check_profile_autostop E (emit (EvResumeThread h True) w2))"
    using running not_full single
    by (simp add: profile_bt_body_def Let_def profile_bt_sleep_fields suspend sample resume)
  from body block ev1 ev2 show ?thesis
    by (auto simp add: h_def)
qed

text \<open>
  \<open>jl_install_thread_signal_handler\<close> is what initialises the backtrace fiber: when
  it returns, \<open>have_backtrace_fiber\<close> is set.
\<close>

lemma install_thread_signal_handler_sets_fiber:
  assumes "returned (jl_install_thread_signal_handler E w) = Some ()"
  shows "have_backtrace_fiber (final_world (jl_install_thread_signal_handler E w)) \<noteq> 0"
  using assms
  by (simp add: jl_install_thread_signal_handler_def returned_def final_world_def emit_def Let_def
        split: if_splits)

section \<open>The injector\<close>

text \<open>
  C1 (amended). With no fault-site restore point registered, a task whose handler chain is
  not empty and a context on which the simulated jump to the topmost frame succeeds,
  injecting exception \<open>e\<close> returns the context rewritten to that frame's saved resume
  point, leaves \<open>e\<close> in the pending-exception slot of the task's thread state and the
  I/O-wait flag cleared, does not touch the handler chain, and leaves a backtrace buffer
  of these entries: the walk of the supplied context with the task's gc stack when
  \<open>e\<close> is not the stack-overflow exception; the walk the fiber makes of the supplied
  context when \<open>e\<close> is the stack-overflow exception and the backtrace fiber has been
  initialised; none when \<open>e\<close> is the stack-overflow exception and there is no fiber.
\<close>

theorem inject_handler:
  assumes "safe_restore w = None"
    and "eh (task_heap w t) = Some h"
    and "jl_simulate_longjmp E (eh_ctx h) ctx = Some c"
  shows "(let r = jl_throw_in_ctx E (Some t) (Some e) ctx w;
              s = tls_heap (final_world r) (ptls (task_heap w t));
              found = (if e \<noteq> jl_stackovf_exception
                       then take (JL_MAX_BT_SIZE E) (backtrace_walk E ctx (gcstack (task_heap w t)))
                       else if have_backtrace_fiber w \<noteq> 0
                       then take (JL_MAX_BT_SIZE E) (backtrace_walk E ctx None)
                       else [])
          in returned r = Some c
             \<and> sig_exception s = Some e
             \<and> io_wait s = 0
             \<and> bt_size s = length found
             \<and> take (bt_size s) (bt_data s) = found
             \<and> task_heap (final_world r) = task_heap w)"
  using assms
  by (simp add: jl_throw_in_ctx_def collab_defs read_defs start_backtrace_fiber_def Let_def
        take_min_length)

theorem inject_handler_witness:
  "safe_restore ex_world = None
   \<and> eh (task_heap ex_world 2) = Some (Handler 42 None)
   \<and> jl_simulate_longjmp ex_env 42 ex_ctx = Some (ex_ctx\<lparr>machine_state := 42\<rparr>)
   \<and> returned (jl_throw_in_ctx ex_env (Some 2) (Some jl_diverror_exception) ex_ctx ex_world)
       = Some (ex_ctx\<lparr>machine_state := 42\<rparr>)
   \<and> sig_exception (tls_heap (final_world
         (jl_throw_in_ctx ex_env (Some 2) (Some jl_diverror_exception) ex_ctx ex_world)) 0)
       = Some jl_diverror_exception
   \<and> bt_size (tls_heap (final_world
         (jl_throw_in_ctx ex_env (Some 2) (Some jl_diverror_exception) ex_ctx ex_world)) 0) = 2"
proof -
  have a: "safe_restore ex_world = None" by (simp add: ex_defs)
  have b: "eh (task_heap ex_world 2) = Some (Handler 42 None)" by (simp add: ex_defs)
  have c: "jl_simulate_longjmp ex_env (eh_ctx (Handler 42 None)) ex_ctx = Some (ex_ctx\<lparr>machine_state := 42\<rparr>)"
    by (simp add: ex_defs jl_simulate_longjmp_def)
  have p: "ptls (task_heap ex_world 2) = 0" by (simp add: ex_defs)
  have f: "take (JL_MAX_BT_SIZE ex_env) (backtrace_walk ex_env ex_ctx (gcstack (task_heap ex_world 2)))
             = [Uintptr 7, Uintptr 8]"
    by (simp add: ex_env_def)
  from inject_handler [OF a b c, where e = jl_diverror_exception] a b c show ?thesis
    by (simp add: Let_def p f)
qed

text \<open>
  C1 as stated fails for the stack-overflow exception before the backtrace fiber exists:
  the buffer is reset to empty and nothing fills it, although the walk of the context
  has two entries, and the fiber does not run (it would have written its warning).
\<close>

theorem inject_stack_overflow_without_fiber_counterexample:
  "safe_restore ex_world = None
   \<and> eh (task_heap ex_world 2) = Some (Handler 42 None)
   \<and> returned (jl_throw_in_ctx ex_env (Some 2) (Some jl_stackovf_exception) ex_ctx ex_world)
       = Some (ex_ctx\<lparr>machine_state := 42\<rparr>)
   \<and> bt_size (tls_heap (final_world
         (jl_throw_in_ctx ex_env (Some 2) (Some jl_stackovf_exception) ex_ctx ex_world)) 0) = 0
   \<and> take (JL_MAX_BT_SIZE ex_env) (backtrace_walk ex_env ex_ctx None) = [Uintptr 7, Uintptr 8]
   \<and> events (final_world
         (jl_throw_in_ctx ex_env (Some 2) (Some jl_stackovf_exception) ex_ctx ex_world)) = []"
  by (simp add: jl_throw_in_ctx_def collab_defs read_defs ex_defs Let_def)

text \<open>
  C2. With no fault-site restore point registered and an empty handler chain, injecting an
  exception into a task never rewrites the context: the last call made is the one to the
  "no handler" collaborator with the exception and the task, and the caller, if the
  collaborator comes back at all, gets the context it passed.
\<close>

theorem inject_no_handler:
  assumes "safe_restore w = None" and "eh (task_heap w t) = None"
  shows "returned (jl_throw_in_ctx E (Some t) (Some e) ctx w) =
           (if no_exc_handler_returns E then Some ctx else None)
         \<and> halted (jl_throw_in_ctx E (Some t) (Some e) ctx w) =
           (if no_exc_handler_returns E then None else Some NoHandlerExit)
         \<and> last (events (final_world (jl_throw_in_ctx E (Some t) (Some e) ctx w))) = EvNoExcHandler e t"
  using assms
  by (simp add: jl_throw_in_ctx_def collab_defs read_defs start_backtrace_fiber_def Let_def
           split: prod.splits option.splits)

theorem inject_no_handler_witness:
  "safe_restore ex_world = None
   \<and> eh (task_heap (ex_world\<lparr>task_heap := (\<lambda>t. ex_task\<lparr>eh := None\<rparr>)\<rparr>) 2) = None
   \<and> returned (jl_throw_in_ctx ex_env (Some 2) (Some jl_diverror_exception) ex_ctx
        (ex_world\<lparr>task_heap := (\<lambda>t. ex_task\<lparr>eh := None\<rparr>)\<rparr>)) = None
   \<and> halted (jl_throw_in_ctx ex_env (Some 2) (Some jl_diverror_exception) ex_ctx
        (ex_world\<lparr>task_heap := (\<lambda>t. ex_task\<lparr>eh := None\<rparr>)\<rparr>)) = Some NoHandlerExit
   \<and> last (events (final_world (jl_throw_in_ctx ex_env (Some 2) (Some jl_diverror_exception) ex_ctx
        (ex_world\<lparr>task_heap := (\<lambda>t. ex_task\<lparr>eh := None\<rparr>)\<rparr>)))) = EvNoExcHandler jl_diverror_exception 2"
proof -
  have a: "safe_restore (ex_world\<lparr>task_heap := (\<lambda>t. ex_task\<lparr>eh := None\<rparr>)\<rparr>) = None"
    by (simp add: ex_defs)
  have b: "eh (task_heap (ex_world\<lparr>task_heap := (\<lambda>t. ex_task\<lparr>eh := None\<rparr>)\<rparr>) 2) = None"
    by simp
  have n: "\<not> no_exc_handler_returns ex_env" by (simp add: ex_env_def)
  from inject_no_handler [OF a b, where E = ex_env and e = jl_diverror_exception and ctx = ex_ctx] a b n
  show ?thesis by (simp add: ex_world_def)
qed

text \<open>
  C9 (amended). With a fault-site restore point registered, for every task, exception and
  context, null task and null exception included, inject leaves the whole process state
  as it was (backtrace length, pending-exception slot, I/O-wait flag and handler chain
  among it) and only applies the simulated jump to the restore point to the supplied
  context: when the jump succeeds inject returns the rewritten context, and when it
  fails the process aborts.
\<close>

theorem inject_restore_point:
  assumes "safe_restore w = Some m"
  shows "final_world (jl_throw_in_ctx E ct excpt ctx w) = w
         \<and> returned (jl_throw_in_ctx E ct excpt ctx w) = jl_simulate_longjmp E m ctx
         \<and> halted (jl_throw_in_ctx E ct excpt ctx w) =
             (if jl_simulate_longjmp E m ctx = None then Some Abort else None)"
  using assms
  by (simp add: jl_throw_in_ctx_def jl_get_safe_restore_def read_defs split: option.splits)

theorem inject_restore_point_witness:
  "safe_restore (ex_world\<lparr>safe_restore := Some 77\<rparr>) = Some 77
   \<and> final_world (jl_throw_in_ctx ex_env None None ex_ctx (ex_world\<lparr>safe_restore := Some 77\<rparr>))
       = ex_world\<lparr>safe_restore := Some 77\<rparr>
   \<and> returned (jl_throw_in_ctx ex_env None None ex_ctx (ex_world\<lparr>safe_restore := Some 77\<rparr>))
       = Some (ex_ctx\<lparr>machine_state := 77\<rparr>)"
proof -
  have a: "safe_restore (ex_world\<lparr>safe_restore := Some 77\<rparr>) = Some 77" by simp
  have j: "jl_simulate_longjmp ex_env 77 ex_ctx = Some (ex_ctx\<lparr>machine_state := 77\<rparr>)"
    by (simp add: jl_simulate_longjmp_def ex_env_def)
  from inject_restore_point [OF a, where E = ex_env and ct = None and excpt = None and ctx = ex_ctx] j
  show ?thesis by simp
qed

text \<open>
  C9 as stated fails where the simulated jump to the restore point fails: inject does not
  return, the process aborts.
\<close>

theorem inject_restore_point_abort_counterexample:
  "safe_restore (ex_world\<lparr>safe_restore := Some 77\<rparr>) = Some 77
   \<and> returned (jl_throw_in_ctx (ex_env\<lparr>simulate_longjmp := (\<lambda>m c. None)\<rparr>) None None ex_ctx
        (ex_world\<lparr>safe_restore := Some 77\<rparr>)) = None
   \<and> halted (jl_throw_in_ctx (ex_env\<lparr>simulate_longjmp := (\<lambda>m c. None)\<rparr>) None None ex_ctx
        (ex_world\<lparr>safe_restore := Some 77\<rparr>)) = Some Abort"
  by (simp add: jl_throw_in_ctx_def jl_get_safe_restore_def jl_simulate_longjmp_def read_defs)

text \<open>
  C10 (amended). With no fault-site restore point registered and the backtrace fiber not
  yet initialised, injecting the stack-overflow exception into a task stores it as
  pending, clears the I/O-wait flag and leaves the backtrace length at zero, without
  running the fiber. Control then goes to the topmost handler frame when the chain is not
  empty (the process aborts if the simulated jump fails), and to the "no handler"
  collaborator when it is empty.
\<close>

theorem inject_stack_overflow_no_fiber:
  assumes "safe_restore w = None" and "have_backtrace_fiber w = 0"
  shows "(let r = jl_throw_in_ctx E (Some t) (Some jl_stackovf_exception) ctx w;
              s = tls_heap (final_world r) (ptls (task_heap w t))
          in bt_size s = 0
             \<and> sig_exception s = Some jl_stackovf_exception
             \<and> io_wait s = 0
             \<and> EvStackOverflowWarning \<notin> set (new_events w (final_world r))
             \<and> (case eh (task_heap w t) of
                  Some h \<Rightarrow>
                    returned r = jl_simulate_longjmp E (eh_ctx h) ctx
                    \<and> halted r = (if jl_simulate_longjmp E (eh_ctx h) ctx = None then Some Abort else None)
                | None \<Rightarrow>
                    last (events (final_world r)) = EvNoExcHandler jl_stackovf_exception t
                    \<and> returned r = (if no_exc_handler_returns E then Some ctx else None)
                    \<and> halted r = (if no_exc_handler_returns E then None else Some NoHandlerExit)))"
  using assms
  by (simp add: jl_throw_in_ctx_def collab_defs read_defs Let_def split: option.splits)

theorem inject_stack_overflow_no_fiber_witness:
  "safe_restore ex_world = None \<and> have_backtrace_fiber ex_world = 0
   \<and> bt_size (tls_heap (final_world
        (jl_throw_in_ctx ex_env (Some 2) (Some jl_stackovf_exception) ex_ctx ex_world)) 0) = 0
   \<and> sig_exception (tls_heap (final_world
        (jl_throw_in_ctx ex_env (Some 2) (Some jl_stackovf_exception) ex_ctx ex_world)) 0)
       = Some jl_stackovf_exception
   \<and> returned (jl_throw_in_ctx ex_env (Some 2) (Some jl_stackovf_exception) ex_ctx ex_world)
       = Some (ex_ctx\<lparr>machine_state := 42\<rparr>)"
proof -
  have a: "safe_restore ex_world = None" by (simp add: ex_defs)
  have b: "have_backtrace_fiber ex_world = 0" by (simp add: ex_defs)
  have p: "ptls (task_heap ex_world 2) = 0" by (simp add: ex_defs)
  have h: "eh (task_heap ex_world 2) = Some (Handler 42 None)" by (simp add: ex_defs)
  have j: "jl_simulate_longjmp ex_env 42 ex_ctx = Some (ex_ctx\<lparr>machine_state := 42\<rparr>)"
    by (simp add: jl_simulate_longjmp_def ex_env_def)
  from inject_stack_overflow_no_fiber [OF a b, where E = ex_env and t = 2 and ctx = ex_ctx] a b
  show ?thesis by (simp add: Let_def p h j)
qed

text \<open>
  C10 as stated fails when a fault-site restore point is registered: inject returns after
  rewriting the context towards the restore point, the exception is not stored, the
  I/O-wait flag stays set and the backtrace length keeps its old value of four.
\<close>

theorem inject_stack_overflow_restore_point_counterexample:
  "have_backtrace_fiber (ex_world\<lparr>safe_restore := Some 77\<rparr>) = 0
   \<and> returned (jl_throw_in_ctx ex_env (Some 2) (Some jl_stackovf_exception) ex_ctx
        (ex_world\<lparr>safe_restore := Some 77\<rparr>)) = Some (ex_ctx\<lparr>machine_state := 77\<rparr>)
   \<and> sig_exception (tls_heap (final_world (jl_throw_in_ctx ex_env (Some 2) (Some jl_stackovf_exception)
        ex_ctx (ex_world\<lparr>safe_restore := Some 77\<rparr>))) 0) = None
   \<and> io_wait (tls_heap (final_world (jl_throw_in_ctx ex_env (Some 2) (Some jl_stackovf_exception)
        ex_ctx (ex_world\<lparr>safe_restore := Some 77\<rparr>))) 0) = 1
   \<and> bt_size (tls_heap (final_world (jl_throw_in_ctx ex_env (Some 2) (Some jl_stackovf_exception)
        ex_ctx (ex_world\<lparr>safe_restore := Some 77\<rparr>))) 0) = 4"
  by (simp add: jl_throw_in_ctx_def jl_get_safe_restore_def jl_simulate_longjmp_def read_defs ex_defs)

section \<open>Interrupt delivery\<close>

text \<open>
  C3. Every successful suspend of the target thread should be followed by one resume, also
  when reading the context fails. On the interrupt path it is not: with the main thread
  in I/O-wait and not deferring signals, a successful \<open>SuspendThread\<close> and a
  failing \<open>GetThreadContext\<close>, \<open>jl_try_deliver_sigint\<close> prints the error and
  returns with one successful suspend and no call of \<open>ResumeThread\<close>.
\<close>

theorem deliver_sigint_read_failure_not_resumed:
  "returned (jl_try_deliver_sigint (ex_env\<lparr>thread_context := None\<rparr>) ex_world) = Some ()
   \<and> events (final_world (jl_try_deliver_sigint (ex_env\<lparr>thread_context := None\<rparr>) ex_world)) =
       [EvSafepointEnableSigint, EvWakeLibuv, EvSuspendThread 3 True, EvSafepointConsumeSigint,
        EvClearForceSigint, EvGetThreadContext 3 False,
        EvPrintf ''error: GetThreadContext failed\<newline>'']
   \<and> suspends 3 (events (final_world
        (jl_try_deliver_sigint (ex_env\<lparr>thread_context := None\<rparr>) ex_world))) = 1
   \<and> resumes 3 (events (final_world
        (jl_try_deliver_sigint (ex_env\<lparr>thread_context := None\<rparr>) ex_world))) = 0"
  by (simp add: deliver_defs collab_defs read_defs count_defs ex_defs Let_def)

text \<open>
  The stack-walk path does resume in the same situation: after a successful suspend and a
  failed read, \<open>jl_thread_suspend_and_get_state\<close> calls \<open>ResumeThread\<close>, and
  aborts when that fails.
\<close>

lemma suspend_and_get_state_read_failure_resumes:
  assumes "jl_all_tls_states w i = Some p" and "current_task (tls_heap w p) = Some ct2"
    and "suspend_ok E" and "thread_context E = None"
  shows "new_events w (final_world (jl_thread_suspend_and_get_state E i w)) =
           [EvSuspendThread (system_id (tls_heap w p)) True,
            EvGetThreadContext (system_id (tls_heap w p)) False,
            EvResumeThread (system_id (tls_heap w p)) (resume_ok E)]
         \<and> halted (jl_thread_suspend_and_get_state E i w) = (if resume_ok E then None else Some Abort)"
  using assms
  by (simp add: jl_thread_suspend_and_get_state_def collab_defs read_defs Let_def)

text \<open>
  The profiler's own turn pairs them as well: a turn that takes a sample suspends the main
  thread once and calls \<open>ResumeThread\<close> on it once, and a turn whose suspend fails
  ends the profiler thread without any resume.
\<close>

lemma profile_bt_body_suspend_resume_paired:
  assumes "profile_running w \<noteq> 0" and "\<not> profile_is_buffer_full E" and "profile_all_tasks w = 0"
    and "jl_all_tls_states w 0 = Some p" and "current_task (tls_heap w p) = Some ct2"
    and "suspend_ok E" and "thread_context E = Some c" and "resume_ok E"
    and "profile_bt_size_cur w
           + length (take (profile_bt_room w) (backtrace_walk E c None))
           + 6 \<le> length (profile_bt_data_prof w)"
  shows "suspends (system_id (tls_heap w p)) (new_events w (final_world (profile_bt_body E w))) = 1
         \<and> resumes (system_id (tls_heap w p)) (new_events w (final_world (profile_bt_body E w))) = 1"
proof -
  from profile_bt_body_sample_run [OF assms]
  obtain w2 where body: "profile_bt_body E w =
        Inr (Continue, jl_check_profile_autostop E
               (emit (EvResumeThread (system_id (tls_heap w p)) True) w2))"
    and ev: "events w2 = events (profile_bt_sleep w)
               @ [EvSuspendThread (system_id (tls_heap w p)) True,
                  EvGetThreadContext (system_id (tls_heap w p)) True]"
    by blast
  show ?thesis
    by (simp add: body ev final_world_def new_events_def suspends_def resumes_def
          jl_check_profile_autostop_def jl_profile_stop_timer_def profile_bt_sleep_def emit_def Let_def)
qed

lemma profile_bt_suspend_failure_returns:
  assumes "profile_running w \<noteq> 0" and "\<not> profile_is_buffer_full E" and "profile_all_tasks w = 0"
    and "jl_all_tls_states w 0 = Some p" and "current_task (tls_heap w p) = Some ct2"
    and "\<not> suspend_ok E"
  shows "returned (profile_bt (E # Es) w) = Some Returned
         \<and> hBtThread (final_world (profile_bt (E # Es) w)) = None
         \<and> profile_running (final_world (profile_bt (E # Es) w)) = 0
         \<and> resumes (system_id (tls_heap w p)) (new_events w (final_world (profile_bt (E # Es) w))) = 0"
  using assms
  by (simp add: profile_bt_body_def jl_thread_suspend_and_get_state_def SuspendThread_def
        profile_bt_sleep_def jl_profile_stop_timer_def fputs_stderr_def emit_def Let_def
        returned_def final_world_def new_events_def resumes_def)

text \<open>
  C4. When writing the mutated context back fails, the failure should be logged and the
  target thread resumed all the same. \<open>jl_try_deliver_sigint\<close> logs the failure and
  returns at once: \<open>ResumeThread\<close> is never called.
\<close>

theorem deliver_sigint_write_failure_not_resumed:
  "returned (jl_try_deliver_sigint (ex_env\<lparr>set_context_ok := False\<rparr>) ex_world) = Some ()
   \<and> events (final_world (jl_try_deliver_sigint (ex_env\<lparr>set_context_ok := False\<rparr>) ex_world)) =
       [EvSafepointEnableSigint, EvWakeLibuv, EvSuspendThread 3 True, EvSafepointConsumeSigint,
        EvClearForceSigint, EvGetThreadContext 3 True,
        EvSetThreadContext 3 \<lparr>ContextFlags = 0x100003, machine_state = 42\<rparr> False,
        EvPrintf ''error: SetThreadContext failed\<newline>'']
   \<and> resumes 3 (events (final_world
        (jl_try_deliver_sigint (ex_env\<lparr>set_context_ok := False\<rparr>) ex_world))) = 0"
  by (simp add: deliver_defs collab_defs read_defs count_defs ex_defs Let_def take_min_length)

text \<open>
  C5. A failing resume of a suspended thread should abort the process.
  \<open>jl_thread_resume\<close> does abort; \<open>jl_try_deliver_sigint\<close> prints
  \<open>error: ResumeThread failed\<close> and returns normally.
\<close>

theorem deliver_sigint_resume_failure_no_abort:
  "halted (jl_try_deliver_sigint (ex_env\<lparr>resume_ok := False\<rparr>) ex_world) = None
   \<and> returned (jl_try_deliver_sigint (ex_env\<lparr>resume_ok := False\<rparr>) ex_world) = Some ()
   \<and> events (final_world (jl_try_deliver_sigint (ex_env\<lparr>resume_ok := False\<rparr>) ex_world)) =
       [EvSafepointEnableSigint, EvWakeLibuv, EvSuspendThread 3 True, EvSafepointConsumeSigint,
        EvClearForceSigint, EvGetThreadContext 3 True,
        EvSetThreadContext 3 \<lparr>ContextFlags = 0x100003, machine_state = 42\<rparr> True,
        EvResumeThread 3 False,
        EvPrintf ''error: ResumeThread failed\<newline>'']
   \<and> halted (jl_thread_resume (ex_env\<lparr>resume_ok := False\<rparr>) 0 ex_world) = Some Abort"
  by (simp add: deliver_defs jl_thread_resume_def collab_defs read_defs count_defs ex_defs Let_def
        take_min_length)

text \<open>
  C6 (amended). If the suspend of the main thread succeeds, the force-interrupt override is
  not set, and the main thread has its deferred-signal counter set and is not in I/O-wait,
  then \<open>jl_try_deliver_sigint\<close> returns having changed nothing of the process state
  but the trace, and the trace gains exactly: arming the safepoint interrupt, waking the
  I/O loop, the suspend, and the call of \<open>ResumeThread\<close> (with a message when it
  fails). The context is neither read nor written, nothing is injected, and the pending
  interrupt is not consumed.
\<close>

theorem deliver_sigint_deferred:
  assumes "suspend_ok E" and "\<not> check_force_sigint E"
    and "jl_all_tls_states w 0 = Some p"
    and "defer_signal (tls_heap w p) \<noteq> 0" and "io_wait (tls_heap w p) = 0"
  shows "returned (jl_try_deliver_sigint E w) = Some ()
         \<and> final_world (jl_try_deliver_sigint E w) =
             w\<lparr>events := events w @
                  [EvSafepointEnableSigint, EvWakeLibuv, EvSuspendThread (hMainThread w) True,
                   EvResumeThread (hMainThread w) (resume_ok E)]
                  @ (if resume_ok E then [] else [EvPrintf ''error: ResumeThread failed\<newline>''])\<rparr>"
  using assms
  by (simp add: jl_try_deliver_sigint_def jl_try_deliver_sigint_resume_def collab_defs read_defs Let_def)

theorem deliver_sigint_deferred_witness:
  "suspend_ok ex_env \<and> \<not> check_force_sigint ex_env
   \<and> defer_signal (tls_heap (ex_world\<lparr>tls_heap := (\<lambda>p. ex_tls\<lparr>defer_signal := 1, io_wait := 0\<rparr>)\<rparr>) 0) \<noteq> 0
   \<and> io_wait (tls_heap (ex_world\<lparr>tls_heap := (\<lambda>p. ex_tls\<lparr>defer_signal := 1, io_wait := 0\<rparr>)\<rparr>) 0) = 0
   \<and> events (final_world (jl_try_deliver_sigint ex_env
        (ex_world\<lparr>tls_heap := (\<lambda>p. ex_tls\<lparr>defer_signal := 1, io_wait := 0\<rparr>)\<rparr>))) =
       [EvSafepointEnableSigint, EvWakeLibuv, EvSuspendThread 3 True, EvResumeThread 3 True]"
proof -
  let ?w = "ex_world\<lparr>tls_heap := (\<lambda>p. ex_tls\<lparr>defer_signal := 1, io_wait := 0\<rparr>)\<rparr>"
  have a: "suspend_ok ex_env" and b: "\<not> check_force_sigint ex_env" by (simp_all add: ex_env_def)
  have c: "jl_all_tls_states ?w 0 = Some 0" by (simp add: ex_world_def)
  have d: "defer_signal (tls_heap ?w 0) \<noteq> 0" and e: "io_wait (tls_heap ?w 0) = 0" by simp_all
  have r: "resume_ok ex_env" by (simp add: ex_env_def)
  have h: "hMainThread ?w = 3" and ev: "events ?w = []" by (simp_all add: ex_world_def)
  from deliver_sigint_deferred [OF a b c d e] a b d e show ?thesis
    by (simp add: r h ev)
qed

text \<open>
  C6 as stated fails when the force-interrupt override is set: with the deferred-signal
  counter set and the I/O-wait flag clear, the pending interrupt is consumed, the context
  is read, the interrupt exception is injected and the context written back is no longer
  the one that was read.
\<close>

theorem deliver_sigint_deferred_force_counterexample:
  "defer_signal (tls_heap (ex_world\<lparr>tls_heap := (\<lambda>p. ex_tls\<lparr>defer_signal := 1, io_wait := 0\<rparr>)\<rparr>) 0) = 1
   \<and> io_wait (tls_heap (ex_world\<lparr>tls_heap := (\<lambda>p. ex_tls\<lparr>defer_signal := 1, io_wait := 0\<rparr>)\<rparr>) 0) = 0
   \<and> events (final_world (jl_try_deliver_sigint (ex_env\<lparr>check_force_sigint := True\<rparr>)
        (ex_world\<lparr>tls_heap := (\<lambda>p. ex_tls\<lparr>defer_signal := 1, io_wait := 0\<rparr>)\<rparr>))) =
       [EvSafepointEnableSigint, EvWakeLibuv, EvSuspendThread 3 True, EvSafepointConsumeSigint,
        EvPrintf ''WARNING: Force throwing a SIGINT\<newline>'',
        EvClearForceSigint, EvGetThreadContext 3 True,
        EvSetThreadContext 3 \<lparr>ContextFlags = 0x100003, machine_state = 42\<rparr> True,
        EvResumeThread 3 True]
   \<and> sig_exception (tls_heap (final_world (jl_try_deliver_sigint (ex_env\<lparr>check_force_sigint := True\<rparr>)
        (ex_world\<lparr>tls_heap := (\<lambda>p. ex_tls\<lparr>defer_signal := 1, io_wait := 0\<rparr>)\<rparr>))) 0)
       = Some jl_interrupt_exception
   \<and> machine_state ex_ctx = 5"
  by (simp add: deliver_defs collab_defs read_defs count_defs ex_defs Let_def take_min_length)

section \<open>The profiler\<close>

text \<open>
  C7 (amended). One turn of the profiler loop in single-thread mode (profiler running,
  buffer not reported full, \<open>profile_all_tasks\<close> zero) against a live main thread
  whose suspend, context read and resume succeed, with room in the buffer for the sample,
  appends to the used part of the sample buffer the program-counter entries of the walk,
  then the four metadata fields, then two zeros. The first metadata field is the main
  worker's \<open>tid\<close> plus one, zero being kept for the end-of-block marker; the
  others are the current task, the cycle counter and the sleep state.
\<close>

theorem profile_bt_single_thread_sample:
  assumes "profile_running w \<noteq> 0"
    and "\<not> profile_is_buffer_full E"
    and "profile_all_tasks w = 0"
    and "jl_all_tls_states w 0 = Some p"
    and "current_task (tls_heap w p) = Some ct2"
    and "suspend_ok E" and "thread_context E = Some c" and "resume_ok E"
    and "profile_bt_size_cur w
           + length (take (profile_bt_room w) (backtrace_walk E c None))
           + 6 \<le> length (profile_bt_data_prof w)"
  shows "(let r = profile_bt_body E w; w' = final_world r
          in returned r = Some Continue
             \<and> take (profile_bt_size_cur w') (profile_bt_data_prof w') =
                 take (profile_bt_size_cur w) (profile_bt_data_prof w)
                   @ take (profile_bt_room w) (backtrace_walk E c None)
                   @ [Uintptr (word_of_int (sint (tid (tls_heap w p)) + 1)),
                      Jlvalue (current_task (tls_heap w p)),
                      Uintptr (cycleclock E),
                      Uintptr (if sleep_check_state (tls_heap w p) = 0
                               then PROFILE_STATE_THREAD_NOT_SLEEPING E
                               else PROFILE_STATE_THREAD_SLEEPING E),
                      Uintptr 0,
                      Uintptr 0])"
proof -
  from profile_bt_body_sample_run [OF assms]
  obtain w2 where body: "profile_bt_body E w =
        Inr (Continue, jl_check_profile_autostop E
               (emit (EvResumeThread (system_id (tls_heap w p)) True) w2))"
    and block: "take (profile_bt_size_cur w2) (profile_bt_data_prof w2) =
                  take (profile_bt_size_cur w) (profile_bt_data_prof w)
                    @ take (profile_bt_room w) (backtrace_walk E c None)
                    @ [Uintptr (word_of_int (sint (tid (tls_heap w p)) + 1)),
                       Jlvalue (current_task (tls_heap w p)),
                       Uintptr (cycleclock E),
                       Uintptr (if sleep_check_state (tls_heap w p) = 0
                                then PROFILE_STATE_THREAD_NOT_SLEEPING E
                                else PROFILE_STATE_THREAD_SLEEPING E),
                       Uintptr 0,
                       Uintptr 0]"
    by blast
  show ?thesis
    by (simp add: body Let_def returned_def final_world_def jl_check_profile_autostop_buffer
          emit_fields block)
qed

theorem profile_bt_single_thread_sample_witness:
  "profile_running (ex_world\<lparr>profile_running := 1\<rparr>) \<noteq> 0
   \<and> \<not> profile_is_buffer_full ex_env
   \<and> profile_all_tasks (ex_world\<lparr>profile_running := 1\<rparr>) = 0
   \<and> returned (profile_bt_body ex_env (ex_world\<lparr>profile_running := 1\<rparr>)) = Some Continue
   \<and> take (profile_bt_size_cur (final_world (profile_bt_body ex_env (ex_world\<lparr>profile_running := 1\<rparr>))))
        (profile_bt_data_prof (final_world (profile_bt_body ex_env (ex_world\<lparr>profile_running := 1\<rparr>)))) =
       [Uintptr 7, Uintptr 8, Uintptr 1, Jlvalue (Some 2), Uintptr 1000, Uintptr 1, Uintptr 0, Uintptr 0]"
proof -
  let ?w = "ex_world\<lparr>profile_running := 1\<rparr>"
  have a: "profile_running ?w \<noteq> 0" by simp
  have b: "\<not> profile_is_buffer_full ex_env" by (simp add: ex_env_def)
  have c: "profile_all_tasks ?w = 0" by (simp add: ex_world_def)
  have d: "jl_all_tls_states ?w 0 = Some 0" by (simp add: ex_world_def)
  have e: "current_task (tls_heap ?w 0) = Some 2" by (simp add: ex_world_def ex_tls_def)
  have f: "suspend_ok ex_env" "thread_context ex_env = Some ex_ctx" "resume_ok ex_env"
    by (simp_all add: ex_env_def)
  have g: "profile_bt_size_cur ?w
             + length (take (profile_bt_room ?w) (backtrace_walk ex_env ex_ctx None))
             + 6 \<le> length (profile_bt_data_prof ?w)"
    by (simp add: ex_world_def ex_env_def profile_bt_room_def)
  from profile_bt_single_thread_sample [OF a b c d e f g] a b c show ?thesis
    by (simp add: Let_def ex_world_def ex_env_def ex_tls_def profile_bt_room_def)
qed

text \<open>
  C7 as stated fails on the thread-id field: for the main worker, whose \<open>tid\<close> is
  0, the field written after the two program-counter entries is 1.
\<close>

theorem profile_bt_thread_id_field_counterexample:
  "returned (profile_bt_body ex_env (ex_world\<lparr>profile_running := 1\<rparr>)) = Some Continue
   \<and> take 8 (profile_bt_data_prof (final_world (profile_bt_body ex_env (ex_world\<lparr>profile_running := 1\<rparr>)))) =
       [Uintptr 7, Uintptr 8, Uintptr 1, Jlvalue (Some 2), Uintptr 1000, Uintptr 1, Uintptr 0, Uintptr 0]
   \<and> tid (tls_heap (ex_world\<lparr>profile_running := 1\<rparr>) 0) = 0"
  by (simp add: profile_bt_body_def profile_bt_sleep_def profile_bt_sample_def profile_put_def
        jl_thread_suspend_and_get_state_def jl_thread_resume_def jl_check_profile_autostop_def
        collab_defs read_defs ex_defs Let_def GIGA_def profile_bt_room_def)

text \<open>
  C8 (amended). After a start of the profiler from the stopped state that returned 0,
  stopping twice in a row is safe and idempotent. The start calls
  \<open>timeBeginPeriod\<close> once, for some period \<open>p\<close>. When that call succeeded and
  \<open>p\<close> is not zero, the first stop restores the timer resolution by exactly one
  call, \<open>timeEndPeriod(p)\<close> for the same period, and does nothing else that
  leaves the file; when the call failed (or \<open>p\<close> is zero) the first stop calls
  nothing. The second stop calls nothing and changes nothing, and both flags are clear
  after the first.
\<close>

theorem stop_timer_twice:
  assumes "profile_running w = 0" and "fst (jl_profile_start_timer E a w) = 0"
  shows "(let w1 = snd (jl_profile_start_timer E a w);
              w2 = jl_profile_stop_timer w1;
              w3 = jl_profile_stop_timer w2
          in \<exists>p. filter is_time_begin (new_events w w1) = [EvTimeBeginPeriod p (begin_period_ok E)]
                 \<and> new_events w1 w2 =
                     (if begin_period_ok E \<and> p \<noteq> 0 then [EvTimeEndPeriod p] else [])
                 \<and> new_events w2 w3 = []
                 \<and> w3 = w2
                 \<and> profile_running w2 = 0 \<and> profile_all_tasks w2 = 0)"
  using assms
  by (auto simp add: jl_profile_start_timer_def jl_profile_start_timer_arm_def jl_profile_stop_timer_def
        collab_defs read_defs Let_def split: option.splits if_splits)

theorem stop_timer_twice_witness:
  "profile_running ex_world = 0 \<and> fst (jl_profile_start_timer ex_env 0 ex_world) = 0
   \<and> filter is_time_begin (new_events ex_world (snd (jl_profile_start_timer ex_env 0 ex_world)))
       = [EvTimeBeginPeriod 1 True]
   \<and> new_events (snd (jl_profile_start_timer ex_env 0 ex_world))
        (jl_profile_stop_timer (snd (jl_profile_start_timer ex_env 0 ex_world)))
       = [EvTimeEndPeriod 1]
   \<and> jl_profile_stop_timer (jl_profile_stop_timer (snd (jl_profile_start_timer ex_env 0 ex_world)))
       = jl_profile_stop_timer (snd (jl_profile_start_timer ex_env 0 ex_world))"
proof -
  have a: "profile_running ex_world = 0" by (simp add: ex_world_def)
  have b: "fst (jl_profile_start_timer ex_env 0 ex_world) = 0"
    by (simp add: jl_profile_start_timer_def jl_profile_start_timer_arm_def collab_defs ex_defs Let_def)
  have n: "filter is_time_begin (new_events ex_world (snd (jl_profile_start_timer ex_env 0 ex_world)))
             = [EvTimeBeginPeriod 1 True]"
    by (simp add: jl_profile_start_timer_def jl_profile_start_timer_arm_def collab_defs ex_defs Let_def
          read_defs)
  have ok: "begin_period_ok ex_env" by (simp add: ex_env_def)
  from stop_timer_twice [OF a b] a b n ok show ?thesis
    by (auto simp add: Let_def)
qed

text \<open>
  C8 as stated fails when the start's \<open>timeBeginPeriod\<close> fails: the start still
  returns 0, and the two stops never call \<open>timeEndPeriod\<close>.
\<close>

theorem stop_timer_twice_begin_failed_counterexample:
  "profile_running ex_world = 0
   \<and> fst (jl_profile_start_timer (ex_env\<lparr>begin_period_ok := False\<rparr>) 0 ex_world) = 0
   \<and> events (jl_profile_stop_timer (jl_profile_stop_timer
        (snd (jl_profile_start_timer (ex_env\<lparr>begin_period_ok := False\<rparr>) 0 ex_world)))) =
       [EvTimeGetDevCaps True, EvCreateThread True, EvSetThreadPriority 9, EvTimeBeginPeriod 1 False]
   \<and> time_end_calls (events (jl_profile_stop_timer (jl_profile_stop_timer
        (snd (jl_profile_start_timer (ex_env\<lparr>begin_period_ok := False\<rparr>) 0 ex_world))))) = 0"
  by (simp add: jl_profile_start_timer_def jl_profile_start_timer_arm_def jl_profile_stop_timer_def
        collab_defs ex_defs Let_def count_defs)

end
